theory Spec2Isabelle
  imports Main "HOL-Library.Multiset"
begin

section \<open>The feature toggle of \<^verbatim>\<open>Feature/feature.py\<close>\<close>

text \<open>
  The module defines one dataclass, \<^verbatim>\<open>Feature\<close>, with four methods. The model keeps
  what each method does beyond returning a value:
  \<^item> a method may assign to a field of \<^verbatim>\<open>self\<close>, so every method returns the object
    as it is after the call;
  \<^item> a method calls the module's logger and, in \<^verbatim>\<open>apply\<close>, the stored callable; the
    calls made are returned as a list of effects, in program order;
  \<^item> a method returns or raises, so its outcome is a sum with the raised exception on
    the left.
\<close>

subsection \<open>Exceptions\<close>

text \<open>
  \<^verbatim>\<open>apply\<close> guards the call of the transformer with \<^verbatim>\<open>except Exception\<close>. Python's
  exception classes all derive from \<^verbatim>\<open>BaseException\<close>; \<^verbatim>\<open>Exception\<close> is one of its
  subclasses, and \<^verbatim>\<open>SystemExit\<close>, \<^verbatim>\<open>KeyboardInterrupt\<close> and \<^verbatim>\<open>GeneratorExit\<close> (and any
  class a program derives from \<^verbatim>\<open>BaseException\<close> directly) are outside it. A raised
  exception is modelled by the side of that line it is on, with the name of its class.
\<close>

datatype py_exception =
    ExceptionInstance string
  | BaseExceptionOnly string

fun isinstance_Exception :: "py_exception \<Rightarrow> bool" where
  "isinstance_Exception (ExceptionInstance c) = True"
| "isinstance_Exception (BaseExceptionOnly c) = False"

subsection \<open>The data model\<close>

text \<open>
  The data handed to \<^verbatim>\<open>apply\<close> is typed \<^verbatim>\<open>Any\<close>: the model is polymorphic in it. The
  transformer is an \<^verbatim>\<open>Optional[Callable[[Any], Any]]\<close>; a call of it returns a value or
  raises, and the field holds that outcome as a function of the argument (a call that
  does not come back has no outcome, and is outside the model). What else a call does,
  to the object it is given and to the feature, which is an ordinary mutable object
  that a closure can hold, is not in the field: it is an argument of
  \<open>apply_effectful\<close> below.
\<close>

record 'a Feature =
  name :: string
  enabled :: bool
  dependencies :: "string list"
  transformer :: "('a \<Rightarrow> py_exception + 'a) option"
  description :: string

text \<open>
  The dataclass's generated constructor: \<^verbatim>\<open>name\<close> is required, the other fields have
  the defaults \<^verbatim>\<open>False\<close>, \<^verbatim>\<open>[]\<close>, \<^verbatim>\<open>None\<close> and \<^verbatim>\<open>""\<close>. A keyword argument is a record
  update on the result.
\<close>

definition Feature_init :: "string \<Rightarrow> 'a Feature" where
  "Feature_init n =
     \<lparr>name = n, enabled = False, dependencies = [], transformer = None, description = ''''\<rparr>"

subsection \<open>Effects\<close>

text \<open>
  A call of the logger is recorded with its level, its format string, its arguments
  and, for \<^verbatim>\<open>logger.exception\<close>, the exception being handled (the call logs at level
  \<^verbatim>\<open>ERROR\<close> with the exception's information attached). A call of the transformer is
  recorded with the argument it was given.
\<close>

datatype level = DEBUG | INFO | ERROR

datatype log_arg = ArgStr string | ArgSet "string set"

datatype 'a effect =
    Log level string "log_arg list" "py_exception option"
  | Invoke 'a

fun invocations :: "'a effect list \<Rightarrow> 'a list" where
  "invocations [] = []"
| "invocations (Invoke x # es) = x # invocations es"
| "invocations (Log l m as e # es) = invocations es"

record ('a, 'r) call =
  outcome :: "py_exception + 'r"
  self_after :: "'a Feature"
  effects :: "'a effect list"

subsection \<open>The methods\<close>

definition enable :: "'a Feature \<Rightarrow> ('a, unit) call" where
  "enable self =
     (let self = self\<lparr>enabled := True\<rparr>
      in \<lparr>outcome = Inr (), self_after = self,
          effects = [Log INFO ''Feature '%s' enabled'' [ArgStr (name self)] None]\<rparr>)"

definition disable :: "'a Feature \<Rightarrow> ('a, unit) call" where
  "disable self =
     (let self = self\<lparr>enabled := False\<rparr>
      in \<lparr>outcome = Inr (), self_after = self,
          effects = [Log INFO ''Feature '%s' disabled'' [ArgStr (name self)] None]\<rparr>)"

definition is_available :: "'a Feature \<Rightarrow> string set \<Rightarrow> ('a, bool) call" where
  "is_available self active_features =
     (let missing = set (dependencies self) - active_features
      in if missing \<noteq> {}
         then \<lparr>outcome = Inr False, self_after = self,
               effects = [Log DEBUG ''Feature '%s' missing dependencies: %s''
                            [ArgStr (name self), ArgSet missing] None]\<rparr>
         else \<lparr>outcome = Inr True, self_after = self, effects = []\<rparr>)"

text \<open>
  \<^verbatim>\<open>apply\<close>, named \<open>apply_feature\<close> here. The second argument is optional in the
  source, with default \<^verbatim>\<open>None\<close>. The branches are in the order of the source; the
  \<^verbatim>\<open>try\<close> block holds the call of the transformer and the \<^verbatim>\<open>info\<close> log, and its handler
  is \<^verbatim>\<open>except Exception\<close>: an exception outside \<^verbatim>\<open>Exception\<close> leaves the method.
\<close>

definition apply_feature ::
  "'a Feature \<Rightarrow> 'a \<Rightarrow> string set option \<Rightarrow> ('a, 'a) call" where
  "apply_feature self data active_features =
     (if \<not> enabled self
      then \<lparr>outcome = Inr data, self_after = self,
            effects = [Log DEBUG ''Feature '%s' is disabled; returning data unchanged''
                         [ArgStr (name self)] None]\<rparr>
      else
        let active_features = (case active_features of None \<Rightarrow> {} | Some s \<Rightarrow> s);
            avail = is_available self active_features;
            self = self_after avail;
            emitted = effects avail
        in if outcome avail \<noteq> Inr True
           then \<lparr>outcome = Inr data, self_after = self,
                 effects = emitted @
                   [Log DEBUG
                      ''Feature '%s' is unavailable due to dependencies; returning data unchanged''
                      [ArgStr (name self)] None]\<rparr>
           else (case transformer self of
               None \<Rightarrow>
                 \<lparr>outcome = Inr data, self_after = self,
                  effects = emitted @
                    [Log DEBUG ''Feature '%s' has no transformer; returning data unchanged''
                       [ArgStr (name self)] None]\<rparr>
             | Some f \<Rightarrow>
                 (case f data of
                    Inr result \<Rightarrow>
                      \<lparr>outcome = Inr result, self_after = self,
                       effects = emitted @
                         [Invoke data,
                          Log INFO ''Feature '%s' applied successfully''
                            [ArgStr (name self)] None]\<rparr>
                  | Inl e \<Rightarrow>
                      if isinstance_Exception e
                      then \<lparr>outcome = Inr data, self_after = self,
                            effects = emitted @
                              [Invoke data,
                               Log ERROR
                                 ''Feature '%s' transformer raised an exception; returning original data''
                                 [ArgStr (name self)] (Some e)]\<rparr>
                      else \<lparr>outcome = Inl e, self_after = self,
                            effects = emitted @ [Invoke data]\<rparr>)))"

subsection \<open>A transformer with side effects\<close>

text \<open>
  \<open>apply_feature\<close> above is \<^verbatim>\<open>apply\<close> for a transformer that leaves its argument and
  the feature as they are. In general the callable is arbitrary code: it can change
  the object it is given in place, and it can reach the feature (a dataclass that is
  not frozen) and assign to its fields or call its methods. \<open>apply_effectful\<close> is
  \<^verbatim>\<open>apply\<close> with that made explicit: \<open>side data self\<close> is the content of the data object
  and the feature as the call of the transformer leaves them. The method goes on with
  both: the handler returns the object it was given, in the state the call left it
  in, and the log lines after the call read \<^verbatim>\<open>self.name\<close> then. What the call does
  inside (its own log lines, say) is not listed among the effects.
\<close>

type_synonym 'a side_effect = "'a \<Rightarrow> 'a Feature \<Rightarrow> 'a \<times> 'a Feature"

definition no_effects :: "'a side_effect" where
  "no_effects data self = (data, self)"

definition apply_effectful ::
  "'a side_effect \<Rightarrow> 'a Feature \<Rightarrow> 'a \<Rightarrow> string set option \<Rightarrow> ('a, 'a) call" where
  "apply_effectful side self data active_features =
     (if \<not> enabled self
      then \<lparr>outcome = Inr data, self_after = self,
            effects = [Log DEBUG ''Feature '%s' is disabled; returning data unchanged''
                         [ArgStr (name self)] None]\<rparr>
      else
        let active_features = (case active_features of None \<Rightarrow> {} | Some s \<Rightarrow> s);
            avail = is_available self active_features;
            self = self_after avail;
            emitted = effects avail
        in if outcome avail \<noteq> Inr True
           then \<lparr>outcome = Inr data, self_after = self,
                 effects = emitted @
                   [Log DEBUG
                      ''Feature '%s' is unavailable due to dependencies; returning data unchanged''
                      [ArgStr (name self)] None]\<rparr>
           else (case transformer self of
               None \<Rightarrow>
                 \<lparr>outcome = Inr data, self_after = self,
                  effects = emitted @
                    [Log DEBUG ''Feature '%s' has no transformer; returning data unchanged''
                       [ArgStr (name self)] None]\<rparr>
             | Some f \<Rightarrow>
                 (let left = side data self;
                      data_left = fst left;
                      self_left = snd left
                  in case f data of
                    Inr result \<Rightarrow>
                      \<lparr>outcome = Inr result, self_after = self_left,
                       effects = emitted @
                         [Invoke data,
                          Log INFO ''Feature '%s' applied successfully''
                            [ArgStr (name self_left)] None]\<rparr>
                  | Inl e \<Rightarrow>
                      if isinstance_Exception e
                      then \<lparr>outcome = Inr data_left, self_after = self_left,
                            effects = emitted @
                              [Invoke data,
                               Log ERROR
                                 ''Feature '%s' transformer raised an exception; returning original data''
                                 [ArgStr (name self_left)] (Some e)]\<rparr>
                      else \<lparr>outcome = Inl e, self_after = self_left,
                            effects = emitted @ [Invoke data]\<rparr>)))"

text \<open>Calling a method \<open>n\<close> times in a row on the same object.\<close>

fun repeated :: "nat \<Rightarrow> ('a Feature \<Rightarrow> ('a, 'r) call) \<Rightarrow> 'a Feature \<Rightarrow> 'a Feature" where
  "repeated 0 m self = self"
| "repeated (Suc n) m self = repeated n m (self_after (m self))"

subsection \<open>The module's example\<close>

text \<open>
  The values of the example under \<^verbatim>\<open>__main__\<close>: strings, and integers for a value that
  is not a string. \<^verbatim>\<open>to_upper\<close> uppercases a string and returns anything else as it
  is; \<^verbatim>\<open>str.upper\<close> is modelled on ASCII letters.
\<close>

datatype py_value = PyStr string | PyInt int

definition upper_char :: "char \<Rightarrow> char" where
  "upper_char c =
     (let n = (of_char c :: nat) in if 97 \<le> n \<and> n \<le> 122 then char_of (n - 32) else c)"

definition str_upper :: "string \<Rightarrow> string" where
  "str_upper s = map upper_char s"

fun to_upper :: "py_value \<Rightarrow> py_exception + py_value" where
  "to_upper (PyStr s) = Inr (PyStr (str_upper s))"
| "to_upper (PyInt i) = Inr (PyInt i)"

definition upper_feature :: "py_value Feature" where
  "upper_feature =
     (Feature_init ''uppercase'')
       \<lparr>description := ''Uppercase string inputs'', transformer := Some to_upper\<rparr>"

text \<open>Two transformers that raise on every input, one on each side of \<^verbatim>\<open>Exception\<close>.\<close>

definition raise_ValueError :: "py_value \<Rightarrow> py_exception + py_value" where
  "raise_ValueError x = Inl (ExceptionInstance ''ValueError'')"

definition raise_SystemExit :: "py_value \<Rightarrow> py_exception + py_value" where
  "raise_SystemExit x = Inl (BaseExceptionOnly ''SystemExit'')"

definition failing_feature :: "py_value Feature" where
  "failing_feature =
     (Feature_init ''failing'')\<lparr>enabled := True, transformer := Some raise_ValueError\<rparr>"

definition exiting_feature :: "py_value Feature" where
  "exiting_feature =
     (Feature_init ''exiting'')\<lparr>enabled := True, transformer := Some raise_SystemExit\<rparr>"

text \<open>
  The example's second feature, \<^verbatim>\<open>dependent\<close>, with the transformer
  \<^verbatim>\<open>lambda s: f"[{s}]"\<close>, taken at string arguments.
\<close>

definition bracket :: "string \<Rightarrow> py_exception + string" where
  "bracket s = Inr (''['' @ s @ '']'')"

definition dependent :: "string Feature" where
  "dependent =
     (Feature_init ''dependent'')
       \<lparr>dependencies := [''uppercase''], transformer := Some bracket\<rparr>"

text \<open>
  Two transformers with side effects. The first is a closure over the feature it is
  stored in: it calls \<^verbatim>\<open>disable\<close> on it and returns its argument,
  \<^verbatim>\<open>lambda d: (f.disable(), d)[1]\<close>. The second is given a list, appends \<open>1\<close> to it
  in place and raises \<^verbatim>\<open>ValueError\<close>.
\<close>

definition return_data :: "py_value \<Rightarrow> py_exception + py_value" where
  "return_data x = Inr x"

definition calls_disable :: "py_value side_effect" where
  "calls_disable data self = (data, self_after (disable self))"

definition disabling_feature :: "py_value Feature" where
  "disabling_feature =
     (Feature_init ''disabling'')\<lparr>enabled := True, transformer := Some return_data\<rparr>"

definition raise_on_list :: "int list \<Rightarrow> py_exception + int list" where
  "raise_on_list xs = Inl (ExceptionInstance ''ValueError'')"

definition appends_one :: "int list side_effect" where
  "appends_one data self = (data @ [1], self)"

definition appending_feature :: "int list Feature" where
  "appending_feature =
     (Feature_init ''appending'')\<lparr>enabled := True, transformer := Some raise_on_list\<rparr>"




section \<open>Properties\<close>

subsection \<open>Auxiliary facts\<close>

lemma is_available_outcome:
  "outcome (is_available f A) = Inr (set (dependencies f) \<subseteq> A)"
  by (auto simp: is_available_def Let_def)

lemma is_available_self: "self_after (is_available f A) = f"
  by (simp add: is_available_def Let_def)


lemma repeated_enable: "repeated (Suc n) enable f = f\<lparr>enabled := True\<rparr>"
  by (induction n arbitrary: f) (simp_all add: enable_def)

lemma repeated_disable: "repeated (Suc n) disable f = f\<lparr>enabled := False\<rparr>"
  by (induction n arbitrary: f) (simp_all add: disable_def)

lemma apply_feature_no_effects:
  "apply_feature f data active = apply_effectful no_effects f data active"
  by (simp add: apply_feature_def apply_effectful_def no_effects_def Let_def
      split: option.splits sum.splits)

subsection \<open>A failing transformer\<close>

text \<open>
  Claim C1, as stated: whenever the transformer of an enabled, available feature raises
  on the data, \<open>apply\<close> catches the error and returns the original data unchanged, and
  \<open>apply\<close> never fails with an exception. This fails in two ways. The handler is
  \<^verbatim>\<open>except Exception\<close>, so an exception outside \<^verbatim>\<open>Exception\<close> leaves the method: the
  first feature below is enabled, has no dependencies and a transformer that raises
  \<^verbatim>\<open>SystemExit\<close>, and \<open>apply\<close> on it raises \<^verbatim>\<open>SystemExit\<close> instead of returning \<open>42\<close>.
  And the handler returns the object it was given, not a copy taken before the call: the
  transformer of the second feature appends to its argument and then raises
  \<^verbatim>\<open>ValueError\<close>, and \<open>apply\<close> on the empty list returns the list \<open>[1]\<close>.
\<close>

theorem apply_failing_transformer_counterexample:
  "enabled exiting_feature \<and> set (dependencies exiting_feature) \<subseteq> {} \<and>
   transformer exiting_feature = Some raise_SystemExit \<and>
   raise_SystemExit (PyInt 42) = Inl (BaseExceptionOnly ''SystemExit'') \<and>
   outcome (apply_feature exiting_feature (PyInt 42) (Some {})) =
     Inl (BaseExceptionOnly ''SystemExit'') \<and>
   outcome (apply_feature exiting_feature (PyInt 42) (Some {})) \<noteq> Inr (PyInt 42) \<and>
   enabled appending_feature \<and> set (dependencies appending_feature) \<subseteq> {} \<and>
   transformer appending_feature = Some raise_on_list \<and>
   raise_on_list [] = Inl (ExceptionInstance ''ValueError'') \<and>
   isinstance_Exception (ExceptionInstance ''ValueError'') \<and>
   outcome (apply_effectful appends_one appending_feature [] (Some {})) = Inr [1] \<and>
   outcome (apply_effectful appends_one appending_feature [] (Some {})) \<noteq> Inr []"
  by (simp add: exiting_feature_def appending_feature_def Feature_init_def
      raise_SystemExit_def raise_on_list_def appends_one_def apply_feature_def
      apply_effectful_def is_available_def)

text \<open>
  Claim C1, amended: for every feature that is enabled, whose dependencies are all in
  the active set (the empty set when the argument is omitted) and whose transformer is
  configured, if the transformer raises an instance of \<^verbatim>\<open>Exception\<close> on the data, then
  \<open>apply\<close> catches it and returns the object it was given, as the call of the
  transformer left it: the original data unchanged when the transformer did not change
  its argument in place (so always for a transformer without side effects, which is
  \<open>apply_feature\<close>). For every input, an exception that leaves \<open>apply\<close> is not an
  instance of \<^verbatim>\<open>Exception\<close>, and it is the one the transformer raised on the data.
\<close>

theorem apply_catches_Exception:
  "(enabled f \<and> set (dependencies f) \<subseteq> (case active of None \<Rightarrow> {} | Some s \<Rightarrow> s) \<and>
    transformer f = Some t \<and> t data = Inl e \<and> isinstance_Exception e \<longrightarrow>
      outcome (apply_effectful side f data active) = Inr (fst (side data f)) \<and>
      (fst (side data f) = data \<longrightarrow> outcome (apply_effectful side f data active) = Inr data) \<and>
      outcome (apply_feature f data active) = Inr data) \<and>
   (outcome (apply_effectful side' g data' active') = Inl e' \<longrightarrow>
      \<not> isinstance_Exception e' \<and> (\<exists>t'. transformer g = Some t' \<and> t' data' = Inl e'))"
  by (auto simp add: apply_feature_def apply_effectful_def is_available_outcome
      is_available_self Let_def split: option.splits sum.splits if_splits)

theorem apply_catches_Exception_witness:
  "enabled appending_feature \<and> set (dependencies appending_feature) \<subseteq> {} \<and>
   transformer appending_feature = Some raise_on_list \<and>
   raise_on_list [5] = Inl (ExceptionInstance ''ValueError'') \<and>
   isinstance_Exception (ExceptionInstance ''ValueError'') \<and>
   outcome (apply_effectful appends_one appending_feature [5] None) = Inr [5, 1] \<and>
   enabled failing_feature \<and> set (dependencies failing_feature) \<subseteq> {} \<and>
   transformer failing_feature = Some raise_ValueError \<and>
   raise_ValueError (PyInt 42) = Inl (ExceptionInstance ''ValueError'') \<and>
   fst (no_effects (PyInt 42) failing_feature) = PyInt 42 \<and>
   outcome (apply_effectful no_effects failing_feature (PyInt 42) None) = Inr (PyInt 42) \<and>
   outcome (apply_feature failing_feature (PyInt 42) None) = Inr (PyInt 42) \<and>
   outcome (apply_effectful no_effects exiting_feature (PyInt 7) None) =
     Inl (BaseExceptionOnly ''SystemExit'') \<and>
   \<not> isinstance_Exception (BaseExceptionOnly ''SystemExit'')"
proof -
  have h: "enabled appending_feature \<and>
     set (dependencies appending_feature) \<subseteq> (case None of None \<Rightarrow> {} | Some s \<Rightarrow> s) \<and>
     transformer appending_feature = Some raise_on_list \<and>
     raise_on_list [5] = Inl (ExceptionInstance ''ValueError'') \<and>
     isinstance_Exception (ExceptionInstance ''ValueError'')"
    by (simp add: appending_feature_def Feature_init_def raise_on_list_def)
  have k: "enabled failing_feature \<and>
     set (dependencies failing_feature) \<subseteq> (case None of None \<Rightarrow> {} | Some s \<Rightarrow> s) \<and>
     transformer failing_feature = Some raise_ValueError \<and>
     raise_ValueError (PyInt 42) = Inl (ExceptionInstance ''ValueError'') \<and>
     isinstance_Exception (ExceptionInstance ''ValueError'')"
    by (simp add: failing_feature_def Feature_init_def raise_ValueError_def)
  have x: "outcome (apply_effectful no_effects exiting_feature (PyInt 7) None) =
     Inl (BaseExceptionOnly ''SystemExit'')"
    by (simp add: exiting_feature_def Feature_init_def raise_SystemExit_def
        apply_effectful_def no_effects_def is_available_def Let_def)
  have a: "fst (appends_one [5] appending_feature) = [5, 1]"
    by (simp add: appends_one_def)
  have n: "fst (no_effects (PyInt 42) failing_feature) = PyInt 42"
    by (simp add: no_effects_def)
  from apply_catches_Exception
    [of appending_feature None raise_on_list "[5]" "ExceptionInstance ''ValueError''"
        appends_one no_effects exiting_feature "PyInt 7" None
        "BaseExceptionOnly ''SystemExit''"]
  have 1: "outcome (apply_effectful appends_one appending_feature [5] None) = Inr [5, 1]"
    and 2: "\<not> isinstance_Exception (BaseExceptionOnly ''SystemExit'')"
    using h x a by simp_all
  from apply_catches_Exception
    [of failing_feature None raise_ValueError "PyInt 42" "ExceptionInstance ''ValueError''"
        no_effects no_effects exiting_feature "PyInt 7" None
        "BaseExceptionOnly ''SystemExit''"]
  have 3: "outcome (apply_effectful no_effects failing_feature (PyInt 42) None) =
      Inr (PyInt 42)"
    and 4: "outcome (apply_feature failing_feature (PyInt 42) None) = Inr (PyInt 42)"
    using k n by simp_all
  from h k x n 1 2 3 4 show ?thesis by simp
qed

subsection \<open>The branches that return the data\<close>

text \<open>
  Claim C2: for every feature with \<open>enabled\<close> false, \<open>apply\<close> returns the data
  unchanged, for any data and any active set, also an omitted one.
\<close>

theorem apply_disabled_identity:
  "\<not> enabled f \<Longrightarrow> outcome (apply_feature f data active) = Inr data"
  by (simp add: apply_feature_def)

theorem apply_disabled_identity_witness:
  "\<not> enabled upper_feature \<and>
   outcome (apply_feature upper_feature (PyStr ''hello'') None) = Inr (PyStr ''hello'')"
proof -
  have h: "\<not> enabled upper_feature"
    by (simp add: upper_feature_def Feature_init_def)
  from apply_disabled_identity [OF h, of "PyStr ''hello''" None] h
  show ?thesis by simp
qed

text \<open>
  Claim C3: \<open>is_available\<close> returns true if and only if every name in the feature's
  dependencies is in the active set; in particular it returns true when the feature
  has no dependencies.
\<close>

theorem is_available_iff:
  "outcome (is_available f A) = Inr (\<forall>d \<in> set (dependencies f). d \<in> A) \<and>
   (dependencies f = [] \<longrightarrow> outcome (is_available f A) = Inr True)"
  by (auto simp: is_available_def Let_def)

theorem is_available_iff_witness:
  "dependencies upper_feature = [] \<and>
   outcome (is_available upper_feature {''other''}) = Inr True \<and>
   outcome (is_available dependent {''uppercase'', ''other''}) = Inr True \<and>
   outcome (is_available dependent {''other''}) = Inr False"
proof -
  have h: "dependencies upper_feature = []"
    by (simp add: upper_feature_def Feature_init_def)
  have d: "dependencies dependent = [''uppercase'']"
    by (simp add: dependent_def Feature_init_def)
  from is_available_iff [of upper_feature "{''other''}"]
    is_available_iff [of dependent "{''uppercase'', ''other''}"]
    is_available_iff [of dependent "{''other''}"]
  show ?thesis using h d by simp
qed

text \<open>
  Claim C4: for every feature that is enabled, whose dependencies are all in the active
  set and whose transformer is configured, if the transformer returns a result on the
  data, then \<open>apply\<close> returns exactly that result. The instance: the feature named
  \<open>uppercase\<close> with the uppercasing transformer, after \<open>enable\<close>, returns \<open>HELLO\<close>
  from \<open>apply\<close> on \<open>hello\<close> with no active set given.
\<close>

theorem apply_returns_transformer_result:
  "(enabled f \<and> set (dependencies f) \<subseteq> (case active of None \<Rightarrow> {} | Some s \<Rightarrow> s) \<and>
    transformer f = Some t \<and> t data = Inr r \<longrightarrow>
      outcome (apply_feature f data active) = Inr r) \<and>
   outcome (apply_feature (self_after (enable upper_feature)) (PyStr ''hello'') None) =
     Inr (PyStr ''HELLO'')"
proof
  show "enabled f \<and> set (dependencies f) \<subseteq> (case active of None \<Rightarrow> {} | Some s \<Rightarrow> s) \<and>
    transformer f = Some t \<and> t data = Inr r \<longrightarrow>
      outcome (apply_feature f data active) = Inr r"
    by (simp add: apply_feature_def is_available_outcome is_available_self Let_def)
  show "outcome (apply_feature (self_after (enable upper_feature)) (PyStr ''hello'') None) =
     Inr (PyStr ''HELLO'')"
    by code_simp
qed

theorem apply_returns_transformer_result_witness:
  "enabled (self_after (enable dependent)) \<and>
   set (dependencies (self_after (enable dependent))) \<subseteq> {''uppercase''} \<and>
   transformer (self_after (enable dependent)) = Some bracket \<and>
   bracket ''data'' = Inr ''[data]'' \<and>
   outcome (apply_feature (self_after (enable dependent)) ''data'' (Some {''uppercase''})) =
     Inr ''[data]''"
proof -
  have h: "enabled (self_after (enable dependent)) \<and>
     set (dependencies (self_after (enable dependent))) \<subseteq>
       (case Some {''uppercase''} of None \<Rightarrow> {} | Some s \<Rightarrow> s) \<and>
     transformer (self_after (enable dependent)) = Some bracket \<and>
     bracket ''data'' = Inr ''[data]''"
    by (simp add: enable_def dependent_def Feature_init_def bracket_def)
  from apply_returns_transformer_result
    [of "self_after (enable dependent)" "Some {''uppercase''}" bracket "''data''" "''[data]''"]
  show ?thesis using h by simp
qed

text \<open>
  Claim C5: for every enabled feature with non-empty dependencies and every active set
  that does not contain all of them, \<open>apply\<close> returns the data unchanged and the
  transformer is not invoked.
\<close>

theorem apply_unavailable_identity:
  "enabled f \<Longrightarrow> dependencies f \<noteq> [] \<Longrightarrow>
   \<not> set (dependencies f) \<subseteq> (case active of None \<Rightarrow> {} | Some s \<Rightarrow> s) \<Longrightarrow>
   outcome (apply_feature f data active) = Inr data \<and>
   invocations (effects (apply_feature f data active)) = []"
  by (auto simp add: apply_feature_def is_available_def Let_def)

theorem apply_unavailable_identity_witness:
  "enabled (self_after (enable dependent)) \<and>
   dependencies (self_after (enable dependent)) \<noteq> [] \<and>
   \<not> set (dependencies (self_after (enable dependent))) \<subseteq> {} \<and>
   outcome (apply_feature (self_after (enable dependent)) ''data'' (Some {})) = Inr ''data'' \<and>
   invocations (effects (apply_feature (self_after (enable dependent)) ''data'' (Some {}))) = []"
proof -
  have h1: "enabled (self_after (enable dependent))"
    and h2: "dependencies (self_after (enable dependent)) \<noteq> []"
    and h3: "\<not> set (dependencies (self_after (enable dependent))) \<subseteq>
       (case Some {} of None \<Rightarrow> {} | Some s \<Rightarrow> s)"
    by (simp_all add: enable_def dependent_def Feature_init_def)
  from apply_unavailable_identity [OF h1 h2 h3, of "''data''"] h1 h2 h3
  show ?thesis by simp
qed

text \<open>
  Claim C6: for every enabled feature with no transformer whose dependencies are all in
  the active set, \<open>apply\<close> returns the data unchanged, for any data.
\<close>

theorem apply_no_transformer_identity:
  "enabled f \<Longrightarrow> transformer f = None \<Longrightarrow>
   set (dependencies f) \<subseteq> (case active of None \<Rightarrow> {} | Some s \<Rightarrow> s) \<Longrightarrow>
   outcome (apply_feature f data active) = Inr data"
  by (simp add: apply_feature_def is_available_outcome is_available_self Let_def)

theorem apply_no_transformer_identity_witness:
  "enabled ((Feature_init ''plain'') \<lparr>enabled := True, dependencies := [''uppercase'']\<rparr>) \<and>
   transformer ((Feature_init ''plain'') \<lparr>enabled := True, dependencies := [''uppercase'']\<rparr>)
     = None \<and>
   set (dependencies ((Feature_init ''plain'') \<lparr>enabled := True, dependencies := [''uppercase'']\<rparr>))
     \<subseteq> {''uppercase''} \<and>
   outcome (apply_feature
     ((Feature_init ''plain'') \<lparr>enabled := True, dependencies := [''uppercase'']\<rparr>)
     (PyInt 42) (Some {''uppercase''})) = Inr (PyInt 42)"
proof -
  let ?f = "(Feature_init ''plain'') \<lparr>enabled := True, dependencies := [''uppercase'']\<rparr>
    :: py_value Feature"
  have h1: "enabled ?f" and h2: "transformer ?f = None"
    and h3: "set (dependencies ?f) \<subseteq> (case Some {''uppercase''} of None \<Rightarrow> {} | Some s \<Rightarrow> s)"
    by (simp_all add: Feature_init_def)
  from apply_no_transformer_identity [OF h1 h2 h3, of "PyInt 42"] h1 h2 h3
  show ?thesis by (simp add: Feature_init_def)
qed

subsection \<open>The omitted active set\<close>

text \<open>
  Claim C7: for every feature and every data, \<open>apply\<close> with the active set omitted
  does what \<open>apply\<close> with the empty set does: the same outcome, the same object
  afterwards and the same effects.
\<close>

theorem apply_default_active_empty:
  "apply_feature f data None = apply_feature f data (Some {})"
  by (simp add: apply_feature_def)

subsection \<open>What the methods change\<close>

text \<open>
  Claim C8, as stated: \<open>is_available\<close> and \<open>apply\<close> leave every field of every feature
  as it was, and \<open>enabled\<close> changes through \<open>enable\<close> and \<open>disable\<close> called by the
  owner only. \<open>apply\<close> hands control to the transformer, and the feature is a mutable
  object: the transformer of the feature below calls \<^verbatim>\<open>disable\<close> on the feature it is
  stored in, and after \<open>apply\<close> the feature, enabled before, is disabled.
\<close>

theorem apply_transformer_disables_feature:
  "enabled disabling_feature \<and> transformer disabling_feature = Some return_data \<and>
   outcome (apply_effectful calls_disable disabling_feature (PyInt 1) None) = Inr (PyInt 1) \<and>
   \<not> enabled (self_after (apply_effectful calls_disable disabling_feature (PyInt 1) None)) \<and>
   self_after (apply_effectful calls_disable disabling_feature (PyInt 1) None) \<noteq>
     disabling_feature"
proof -
  have e: "enabled disabling_feature"
    by (simp add: disabling_feature_def Feature_init_def)
  have t: "transformer disabling_feature = Some return_data"
    by (simp add: disabling_feature_def Feature_init_def)
  have o: "outcome (apply_effectful calls_disable disabling_feature (PyInt 1) None) =
      Inr (PyInt 1)"
    by (simp add: disabling_feature_def Feature_init_def return_data_def calls_disable_def
        apply_effectful_def is_available_def disable_def)
  have d: "\<not> enabled
      (self_after (apply_effectful calls_disable disabling_feature (PyInt 1) None))"
    by (simp add: disabling_feature_def Feature_init_def return_data_def calls_disable_def
        apply_effectful_def is_available_def disable_def)
  from e d have "self_after (apply_effectful calls_disable disabling_feature (PyInt 1) None)
      \<noteq> disabling_feature"
    by auto
  with e t o d show ?thesis by simp
qed

text \<open>
  Claim C8, amended: \<open>is_available\<close> leaves every field of the feature as it was, and
  \<open>enable\<close> and \<open>disable\<close> set \<open>enabled\<close> and change no other field. \<open>apply\<close> itself
  assigns no field: when it does not invoke the transformer (the feature is disabled or
  unavailable, or has no transformer) the feature is as it was, and when it does, the
  feature is as the call of the transformer left it, so unchanged whenever the
  transformer does not change the feature (always for a transformer without side
  effects, which is \<open>apply_feature\<close>). So \<open>enabled\<close> changes through \<open>enable\<close> and
  \<open>disable\<close>, or through what a transformer does to the feature, and never through
  the code of \<open>apply\<close> or \<open>is_available\<close>.
\<close>

theorem methods_frame:
  "self_after (is_available f A) = f \<and>
   self_after (enable f) = f\<lparr>enabled := True\<rparr> \<and>
   self_after (disable f) = f\<lparr>enabled := False\<rparr> \<and>
   self_after (apply_effectful side f data active) =
     (if invocations (effects (apply_effectful side f data active)) = [] then f
      else snd (side data f)) \<and>
   (snd (side data f) = f \<longrightarrow> self_after (apply_effectful side f data active) = f) \<and>
   self_after (apply_feature f data active) = f"
  by (simp add: apply_feature_def apply_effectful_def is_available_def enable_def
      disable_def Let_def split: option.splits sum.splits)

theorem methods_frame_witness:
  "self_after (apply_effectful calls_disable disabling_feature (PyInt 1) None) =
     disabling_feature\<lparr>enabled := False\<rparr> \<and>
   snd (no_effects (PyInt 1) disabling_feature) = disabling_feature \<and>
   self_after (apply_effectful no_effects disabling_feature (PyInt 1) None) =
     disabling_feature \<and>
   self_after (apply_effectful calls_disable upper_feature (PyInt 1) None) = upper_feature"
proof -
  have i: "invocations (effects
      (apply_effectful calls_disable disabling_feature (PyInt 1) None)) \<noteq> []"
    by (simp add: disabling_feature_def Feature_init_def return_data_def
        apply_effectful_def is_available_def Let_def)
  have u: "invocations (effects
      (apply_effectful calls_disable upper_feature (PyInt 1) None)) = []"
    by (simp add: upper_feature_def Feature_init_def apply_effectful_def)
  have c: "snd (calls_disable (PyInt 1) disabling_feature) =
      disabling_feature\<lparr>enabled := False\<rparr>"
    by (simp add: calls_disable_def disable_def)
  have n: "snd (no_effects (PyInt 1) disabling_feature) = disabling_feature"
    by (simp add: no_effects_def)
  from methods_frame [of disabling_feature _ calls_disable "PyInt 1" None] i c
  have 1: "self_after (apply_effectful calls_disable disabling_feature (PyInt 1) None) =
      disabling_feature\<lparr>enabled := False\<rparr>"
    by simp
  from methods_frame [of disabling_feature _ no_effects "PyInt 1" None] n
  have 2: "self_after (apply_effectful no_effects disabling_feature (PyInt 1) None) =
      disabling_feature"
    by blast
  from methods_frame [of upper_feature _ calls_disable "PyInt 1" None] u
  have 3: "self_after (apply_effectful calls_disable upper_feature (PyInt 1) None) =
      upper_feature"
    by simp
  from 1 2 3 n show ?thesis by simp
qed

text \<open>
  Claim C9: for every feature and every \<open>n \<ge> 1\<close>, \<open>n\<close> calls of \<open>enable\<close> leave the
  feature as one call does, with \<open>enabled\<close> true, and \<open>n\<close> calls of \<open>disable\<close> leave
  it as one call does, with \<open>enabled\<close> false; both return normally on every feature.
  (Each call logs one line; the log is not part of the feature's state.)
\<close>

theorem enable_disable_idempotent:
  "1 \<le> n \<Longrightarrow>
   repeated n enable f = self_after (enable f) \<and> enabled (repeated n enable f) \<and>
   repeated n disable f = self_after (disable f) \<and> \<not> enabled (repeated n disable f) \<and>
   outcome (enable f) = Inr () \<and> outcome (disable f) = Inr ()"
proof -
  assume "1 \<le> n"
  then obtain k where n: "n = Suc k" by (cases n) auto
  show ?thesis
    unfolding n repeated_enable repeated_disable by (simp add: enable_def disable_def)
qed

theorem enable_disable_idempotent_witness:
  "(1::nat) \<le> 3 \<and>
   repeated 3 enable upper_feature = self_after (enable upper_feature) \<and>
   enabled (repeated 3 enable upper_feature) \<and>
   repeated 3 disable upper_feature = self_after (disable upper_feature) \<and>
   \<not> enabled (repeated 3 disable upper_feature)"
proof -
  have h: "(1::nat) \<le> 3" by simp
  from enable_disable_idempotent [OF h, of upper_feature] h
  show ?thesis by blast
qed

subsection \<open>The dependencies as a set\<close>




subsection \<open>The same facts with side effects\<close>

text \<open>
  The facts above about the branches of \<open>apply\<close> are stated for \<open>apply_feature\<close>.
  None of them depends on the transformer having no side effects: they hold for
  \<open>apply_effectful\<close> with any side effect, and in the branches that do not call the
  transformer nothing is invoked and the feature is as it was.
\<close>

lemma apply_effectful_disabled:
  "\<not> enabled f \<Longrightarrow>
   outcome (apply_effectful side f data active) = Inr data \<and>
   self_after (apply_effectful side f data active) = f \<and>
   invocations (effects (apply_effectful side f data active)) = []"
  by (simp add: apply_effectful_def)

lemma apply_effectful_unavailable:
  "enabled f \<Longrightarrow>
   \<not> set (dependencies f) \<subseteq> (case active of None \<Rightarrow> {} | Some s \<Rightarrow> s) \<Longrightarrow>
   outcome (apply_effectful side f data active) = Inr data \<and>
   self_after (apply_effectful side f data active) = f \<and>
   invocations (effects (apply_effectful side f data active)) = []"
  by (auto simp add: apply_effectful_def is_available_def Let_def)

lemma apply_effectful_no_transformer:
  "enabled f \<Longrightarrow> transformer f = None \<Longrightarrow>
   set (dependencies f) \<subseteq> (case active of None \<Rightarrow> {} | Some s \<Rightarrow> s) \<Longrightarrow>
   outcome (apply_effectful side f data active) = Inr data \<and>
   self_after (apply_effectful side f data active) = f \<and>
   invocations (effects (apply_effectful side f data active)) = []"
  by (simp add: apply_effectful_def is_available_def Let_def)

lemma apply_effectful_result:
  "enabled f \<Longrightarrow> set (dependencies f) \<subseteq> (case active of None \<Rightarrow> {} | Some s \<Rightarrow> s) \<Longrightarrow>
   transformer f = Some t \<Longrightarrow> t data = Inr r \<Longrightarrow>
   outcome (apply_effectful side f data active) = Inr r"
  by (simp add: apply_effectful_def is_available_outcome is_available_self Let_def)

lemma apply_effectful_default_active_empty:
  "apply_effectful side f data None = apply_effectful side f data (Some {})"
  by (simp add: apply_effectful_def)

end
